theory Spec2Isabelle
  imports Main "HOL-Library.Monad_Syntax" "HOL-Library.Sublist" "HOL-Library.AList"
begin

section \<open>Terraform plan to Markdown converter: values and Python primitives\<close>

text \<open>
  The converter works on the objects that Python's \<^verbatim>\<open>json\<close> module returns. They are
  embedded as the datatype below. A Python \<^verbatim>\<open>dict\<close> with string keys is an association
  list in insertion order; lookups take the first binding of a key, and a dict built by
  \<^verbatim>\<open>json.loads\<close> has each key once. Numbers are the integers (Python's unbounded
  \<^verbatim>\<open>int\<close>); fractional JSON numbers (Python \<^verbatim>\<open>float\<close>) are not part of the embedding.
  A \<^typ>\<open>char\<close> stands for one character of a Python \<^verbatim>\<open>str\<close>, so \<^const>\<open>length\<close> is
  Python's \<^verbatim>\<open>len\<close>; the few non-ASCII literals of the source (emoji, the arrow) are
  spelled as their UTF-8 bytes.

  An uncaught Python exception (\<^verbatim>\<open>AttributeError\<close>, \<^verbatim>\<open>TypeError\<close>) is the result
  \<^const>\<open>None\<close> of an option-valued function; \<^verbatim>\<open>main\<close> turns every such exception into
  exit code 1.
\<close>

datatype json =
    JNull
  | JBool bool
  | JInt int
  | JStr string
  | JList "json list"
  | JDict "(string \<times> json) list"

text \<open>Python's \<^verbatim>\<open>==\<close> on these objects: \<^verbatim>\<open>True == 1\<close> and \<^verbatim>\<open>False == 0\<close> hold, lists are
  compared element by element, dicts as sets of bindings (same number of keys, and
  every key of the left bound to an equal value on the right).\<close>

fun py_eq :: "json \<Rightarrow> json \<Rightarrow> bool"
  and dict_sub :: "(string \<times> json) list \<Rightarrow> (string \<times> json) list \<Rightarrow> bool"
  and list_eq :: "json list \<Rightarrow> json list \<Rightarrow> bool"
where
  "py_eq JNull JNull = True"
| "py_eq (JBool a) (JBool b) = (a = b)"
| "py_eq (JBool a) (JInt i) = (i = (if a then 1 else 0))"
| "py_eq (JInt i) (JBool b) = (i = (if b then 1 else 0))"
| "py_eq (JInt i) (JInt j) = (i = j)"
| "py_eq (JStr s) (JStr t) = (s = t)"
| "py_eq (JList xs) (JList ys) = list_eq xs ys"
| "py_eq (JDict a) (JDict b) = (length a = length b \<and> dict_sub a b)"
| "py_eq _ _ = False"
| "dict_sub [] b = True"
| "dict_sub ((k, v) # a) b =
     ((case map_of b k of None \<Rightarrow> False | Some w \<Rightarrow> py_eq v w) \<and> dict_sub a b)"
| "list_eq [] [] = True"
| "list_eq (x # xs) (y # ys) = (py_eq x y \<and> list_eq xs ys)"
| "list_eq _ _ = False"

text \<open>Truth value testing (\<^verbatim>\<open>if x:\<close>, \<^verbatim>\<open>not x\<close>, \<^verbatim>\<open>x and y\<close>).\<close>

fun truthy :: "json \<Rightarrow> bool" where
  "truthy JNull = False"
| "truthy (JBool b) = b"
| "truthy (JInt i) = (i \<noteq> 0)"
| "truthy (JStr s) = (s \<noteq> [])"
| "truthy (JList xs) = (xs \<noteq> [])"
| "truthy (JDict kvs) = (kvs \<noteq> [])"

text \<open>\<^verbatim>\<open>d.get(k, dflt)\<close>: only a dict has the method; on any other object the attribute
  lookup raises \<^verbatim>\<open>AttributeError\<close>. \<^verbatim>\<open>d.get(k)\<close> is \<^verbatim>\<open>d.get(k, None)\<close>.\<close>

definition py_get :: "json \<Rightarrow> string \<Rightarrow> json \<Rightarrow> json option" where
  "py_get d k dflt =
     (case d of
        JDict kvs \<Rightarrow> Some (case map_of kvs k of Some v \<Rightarrow> v | None \<Rightarrow> dflt)
      | _ \<Rightarrow> None)"

definition is_dict :: "json \<Rightarrow> bool" where
  "is_dict v = (case v of JDict _ \<Rightarrow> True | _ \<Rightarrow> False)"

text \<open>\<^verbatim>\<open>s in x\<close> for a string literal \<^verbatim>\<open>s\<close>: membership in a list, key membership in a
  dict, substring test on a string, \<^verbatim>\<open>TypeError\<close> on \<^verbatim>\<open>None\<close>, booleans and numbers.\<close>

definition py_in :: "string \<Rightarrow> json \<Rightarrow> bool option" where
  "py_in s x =
     (case x of
        JList xs \<Rightarrow> Some (list_ex (\<lambda>e. py_eq (JStr s) e) xs)
      | JDict kvs \<Rightarrow> Some (s \<in> fst ` set kvs)
      | JStr t \<Rightarrow> Some (sublist s t)
      | _ \<Rightarrow> None)"

text \<open>\<^verbatim>\<open>for x in v\<close>: the elements of a list, the keys of a dict, the characters of a
  string; \<^verbatim>\<open>TypeError\<close> otherwise.\<close>

definition py_iter :: "json \<Rightarrow> json list option" where
  "py_iter v =
     (case v of
        JList xs \<Rightarrow> Some xs
      | JDict kvs \<Rightarrow> Some (map (\<lambda>kv. JStr (fst kv)) kvs)
      | JStr s \<Rightarrow> Some (map (\<lambda>c. JStr [c]) s)
      | _ \<Rightarrow> None)"

text \<open>\<^verbatim>\<open>str(n)\<close> for an integer: decimal digits, with a minus sign.\<close>

definition digit_char :: "nat \<Rightarrow> char" where
  "digit_char d = char_of (48 + d)"

fun show_nat :: "nat \<Rightarrow> string" where
  "show_nat n = (if n < 10 then [digit_char n] else show_nat (n div 10) @ [digit_char (n mod 10)])"

declare show_nat.simps [simp del]

definition show_int :: "int \<Rightarrow> string" where
  "show_int i = (if i < 0 then CHR ''-'' # show_nat (nat (- i)) else show_nat (nat i))"

text \<open>\<^verbatim>\<open>s.strip()\<close>: the characters Python counts as whitespace (\<^verbatim>\<open>str.isspace\<close>) are
  removed at both ends.\<close>

definition is_space :: "char \<Rightarrow> bool" where
  "is_space c = (of_char c \<in> {9, 10, 11, 12, 13, 28, 29, 30, 31, 32, 133, 160 :: nat})"

definition strip :: "string \<Rightarrow> string" where
  "strip s = rev (dropWhile is_space (rev (dropWhile is_space s)))"

text \<open>\<^verbatim>\<open>sep.join(xs)\<close>.\<close>

fun str_join :: "string \<Rightarrow> string list \<Rightarrow> string" where
  "str_join sep [] = []"
| "str_join sep [x] = x"
| "str_join sep (x # y # ys) = x @ sep @ str_join sep (y # ys)"

text \<open>\<^verbatim>\<open>"  " * indent\<close>: empty for a negative count.\<close>

definition indent_prefix :: "int \<Rightarrow> string" where
  "indent_prefix indent = concat (replicate (nat indent) ''  '')"

section \<open>Value formatter and attribute differ\<close>

fun format_value :: "json \<Rightarrow> int \<Rightarrow> string" where
  "format_value JNull indent = []"
| "format_value (JBool b) indent =
     indent_prefix indent @ ''`'' @ (if b then ''true'' else ''false'') @ ''`''"
| "format_value (JInt i) indent = indent_prefix indent @ ''`'' @ show_int i @ ''`''"
| "format_value (JStr s) indent =
     (if s = [] then []
      else if length s > 100 then indent_prefix indent @ ''`'' @ take 97 s @ ''...`''
      else indent_prefix indent @ ''`'' @ s @ ''`'')"
| "format_value (JList vs) indent =
     (if vs = [] then []
      else if length vs > 5 then
        indent_prefix indent @ ''List with '' @ show_nat (length vs) @ '' items''
      else indent_prefix indent @ str_join '', '' (map (\<lambda>v. strip (format_value v 0)) vs))"
| "format_value (JDict kvs) indent =
     (if kvs = [] then []
      else indent_prefix indent @ ''Object with '' @ show_nat (length kvs) @ '' properties'')"

text \<open>\<^verbatim>\<open>x is None or (isinstance(x, (list, dict)) and not x)\<close>.\<close>

definition absent :: "json \<Rightarrow> bool" where
  "absent v = (case v of JNull \<Rightarrow> True | JList xs \<Rightarrow> xs = [] | JDict kvs \<Rightarrow> kvs = [] | _ \<Rightarrow> False)"

definition arrow :: string where
  "arrow = [CHR 0xE2, CHR 0x86, CHR 0x92]"

definition format_change :: "json \<Rightarrow> json \<Rightarrow> string \<Rightarrow> int \<Rightarrow> string list" where
  "format_change before after key indent =
     (if absent before \<and> absent after then []
      else if absent after then []
      else if absent before then
        (let after_str = strip (format_value after 0) in
         if after_str \<noteq> [] then [indent_prefix indent @ ''- **'' @ key @ ''**: '' @ after_str]
         else [])
      else if \<not> py_eq before after then
        (let before_str = strip (format_value before 0);
             after_str = strip (format_value after 0) in
         if before_str \<noteq> [] \<or> after_str \<noteq> [] then
           (if before_str \<noteq> [] \<and> after_str \<noteq> [] then
              [indent_prefix indent @ ''- **'' @ key @ ''**: ~~'' @ before_str @ ''~~ '' @ arrow
                 @ '' '' @ after_str]
            else if after_str \<noteq> [] then
              [indent_prefix indent @ ''- **'' @ key @ ''**: '' @ after_str]
            else [])
         else [])
      else [])"

section \<open>Action labels and the change classifier\<close>

definition label_create :: string where
  "label_create = [CHR 0xE2, CHR 0x9E, CHR 0x95] @ '' **CREATE**''"

definition label_delete :: string where
  "label_delete = [CHR 0xF0, CHR 0x9F, CHR 0x97, CHR 0x91, CHR 0xEF, CHR 0xB8, CHR 0x8F] @ '' **DELETE**''"

definition label_update :: string where
  "label_update = [CHR 0xF0, CHR 0x9F, CHR 0x94, CHR 0x84] @ '' **UPDATE**''"

definition label_replace :: string where
  "label_replace = [CHR 0xF0, CHR 0x9F, CHR 0x94, CHR 0x81] @ '' **REPLACE**''"

definition label_read :: string where
  "label_read = [CHR 0xF0, CHR 0x9F, CHR 0x93, CHR 0x96] @ '' **READ**''"

definition label_noop :: string where
  "label_noop = [CHR 0xE2, CHR 0x9A, CHR 0xAA] @ '' **NO-OP**''"

text \<open>\<^verbatim>\<open>get_action_emoji(actions)\<close>. Whether \<^verbatim>\<open>s in actions\<close> raises depends on \<^verbatim>\<open>actions\<close>
  alone, not on \<^verbatim>\<open>s\<close>, so the first test of the chain raises exactly when any would: the
  membership tests are evaluated up front and the chain of \<^verbatim>\<open>if/elif\<close> follows.\<close>

definition get_action_emoji :: "json \<Rightarrow> string option" where
  "get_action_emoji actions = do {
     has_create \<leftarrow> py_in ''create'' actions;
     has_delete \<leftarrow> py_in ''delete'' actions;
     has_update \<leftarrow> py_in ''update'' actions;
     has_replace \<leftarrow> py_in ''replace'' actions;
     has_read \<leftarrow> py_in ''read'' actions;
     Some (if has_create then label_create
           else if has_delete then label_delete
           else if has_update then label_update
           else if has_replace \<or> (has_delete \<and> has_create) then label_replace
           else if has_read then label_read
           else label_noop)
   }"

datatype bucket = Create | Delete | Update | UpdateTagsOnly | Replace | Read | NoOp

text \<open>The body of the counting loop of \<^verbatim>\<open>convert_plan_to_markdown\<close> (the key of
  \<^verbatim>\<open>action_counts\<close> that is incremented for one resource change \<^verbatim>\<open>rc\<close>).\<close>

definition classify :: "json \<Rightarrow> bucket option" where
  "classify rc = do {
     change \<leftarrow> py_get rc ''change'' (JDict []);
     actions \<leftarrow> py_get change ''actions'' (JList []);
     tags_only \<leftarrow> py_get rc ''tags_only'' (JBool False);
     has_create \<leftarrow> py_in ''create'' actions;
     has_delete \<leftarrow> py_in ''delete'' actions;
     has_update \<leftarrow> py_in ''update'' actions;
     has_read \<leftarrow> py_in ''read'' actions;
     Some (if has_create \<and> has_delete then Replace
           else if has_create then Create
           else if has_delete then Delete
           else if has_update then (if truthy tags_only then UpdateTagsOnly else Update)
           else if has_read then Read
           else NoOp)
   }"

text \<open>The counting loop itself: \<^verbatim>\<open>action_counts\<close> as a function from buckets to counts.\<close>

fun count_actions :: "json list \<Rightarrow> (bucket \<Rightarrow> nat) \<Rightarrow> (bucket \<Rightarrow> nat) option" where
  "count_actions [] action_counts = Some action_counts"
| "count_actions (rc # rcs) action_counts =
     (case classify rc of
        None \<Rightarrow> None
      | Some b \<Rightarrow> count_actions rcs (action_counts(b := action_counts b + 1)))"

section \<open>Full-document parser: marking tag-only updates\<close>

text \<open>A loop whose body may raise: the results in order, or the exception.\<close>

fun map_raise :: "('a \<Rightarrow> 'b option) \<Rightarrow> 'a list \<Rightarrow> 'b list option" where
  "map_raise f [] = Some []"
| "map_raise f (x # xs) =
     (case f x of
        None \<Rightarrow> None
      | Some y \<Rightarrow> (case map_raise f xs of None \<Rightarrow> None | Some ys \<Rightarrow> Some (y # ys)))"

text \<open>One round of the loop over \<^verbatim>\<open>all_keys\<close> in \<^verbatim>\<open>parse_terraform_show_json\<close>: whether
  \<^verbatim>\<open>key\<close> is added to \<^verbatim>\<open>changed_attrs\<close>.\<close>

definition key_changed :: "json \<Rightarrow> json \<Rightarrow> json \<Rightarrow> string \<Rightarrow> bool option" where
  "key_changed before after after_unknown key = do {
     unknown \<leftarrow> (if truthy after_unknown then map_option truthy (py_get after_unknown key JNull)
                 else Some False);
     if unknown then Some False
     else do {
       before_val \<leftarrow> py_get before key JNull;
       after_val \<leftarrow> py_get after key JNull;
       Some (\<not> py_eq before_val after_val)
     }
   }"

text \<open>\<^verbatim>\<open>set(before.keys()) | set(after.keys())\<close>, enumerated without repetition. Python
  leaves the order of a set open; \<^verbatim>\<open>changed_attrs\<close> is used as a set only.\<close>

definition all_keys :: "(string \<times> json) list \<Rightarrow> (string \<times> json) list \<Rightarrow> string list" where
  "all_keys b a = remdups (map fst b @ map fst a)"

definition changed_attrs :: "json \<Rightarrow> json \<Rightarrow> json \<Rightarrow> string list \<Rightarrow> string list option" where
  "changed_attrs before after after_unknown keys =
     map_option (\<lambda>flags. map fst (filter snd (zip keys flags)))
       (map_raise (key_changed before after after_unknown) keys)"

text \<open>The value that \<^verbatim>\<open>parse_terraform_show_json\<close> stores in \<^verbatim>\<open>rc["tags_only"]\<close>.\<close>

definition tags_only_flag :: "json \<Rightarrow> bool option" where
  "tags_only_flag rc = do {
     change \<leftarrow> py_get rc ''change'' (JDict []);
     actions \<leftarrow> py_get change ''actions'' (JList []);
     has_update \<leftarrow> py_in ''update'' actions;
     has_create \<leftarrow> py_in ''create'' actions;
     has_delete \<leftarrow> py_in ''delete'' actions;
     if has_update \<and> \<not> has_create \<and> \<not> has_delete then do {
       before \<leftarrow> py_get change ''before'' (JDict []);
       after \<leftarrow> py_get change ''after'' (JDict []);
       after_unknown \<leftarrow> py_get change ''after_unknown'' (JDict []);
       (case (before, after) of
          (JDict b, JDict a) \<Rightarrow> do {
            changed \<leftarrow> changed_attrs before after after_unknown (all_keys b a);
            Some (changed \<noteq> [] \<and> list_all (\<lambda>k. k = ''tags'' \<or> k = ''tags_all'') changed)
          }
        | _ \<Rightarrow> Some False)
     } else Some False
   }"

text \<open>\<^verbatim>\<open>rc["tags_only"] = flag\<close>: the binding is replaced in place or appended.\<close>

definition mark_tags_only :: "json \<Rightarrow> json option" where
  "mark_tags_only rc = do {
     flag \<leftarrow> tags_only_flag rc;
     (case rc of
        JDict kvs \<Rightarrow> Some (JDict (AList.update ''tags_only'' (JBool flag) kvs))
      | _ \<Rightarrow> None)
   }"

text \<open>\<^verbatim>\<open>parse_terraform_show_json\<close> on the loaded document \<^verbatim>\<open>data\<close>. The resource changes
  are mutated inside the document, which is returned.\<close>

definition parse_terraform_show_json :: "json \<Rightarrow> json option" where
  "parse_terraform_show_json data = do {
     resource_changes \<leftarrow> py_get data ''resource_changes'' (JList []);
     rcs \<leftarrow> py_iter resource_changes;
     marked \<leftarrow> map_raise mark_tags_only rcs;
     (case (data, resource_changes) of
        (JDict kvs, JList (_ # _)) \<Rightarrow>
          Some (JDict (AList.update ''resource_changes'' (JList marked) kvs))
      | _ \<Rightarrow> Some data)
   }"

section \<open>Tag aggregator\<close>

text \<open>\<^verbatim>\<open>str(v)\<close> as the f-string that builds \<^verbatim>\<open>change_key\<close> computes it. Python's
  \<^verbatim>\<open>repr\<close> of lists and dicts is a parameter \<open>repr\<close> of the embedding.\<close>

definition py_str :: "(json \<Rightarrow> string) \<Rightarrow> json \<Rightarrow> string" where
  "py_str repr v =
     (case v of
        JNull \<Rightarrow> ''None''
      | JBool b \<Rightarrow> (if b then ''True'' else ''False'')
      | JInt i \<Rightarrow> show_int i
      | JStr s \<Rightarrow> s
      | _ \<Rightarrow> repr v)"

text \<open>An entry \<^verbatim>\<open>{"before": .., "after": .., "count": ..}\<close> of \<^verbatim>\<open>tag_changes[tag_key]\<close>.\<close>

record grouping =
  g_before :: json
  g_after :: json
  g_count :: nat

text \<open>\<^verbatim>\<open>tag_changes\<close>: tag key to (change key to grouping), both in insertion order.\<close>

type_synonym tag_table = "(string \<times> (string \<times> grouping) list) list"

text \<open>The body of \<^verbatim>\<open>if before_val != after_val:\<close>.\<close>

definition record_change ::
  "(json \<Rightarrow> string) \<Rightarrow> string \<Rightarrow> json \<Rightarrow> json \<Rightarrow> tag_table \<Rightarrow> tag_table" where
  "record_change repr tag_key before_val after_val tag_changes =
     (let change_key = py_str repr before_val @ arrow @ py_str repr after_val;
          changes = (case map_of tag_changes tag_key of None \<Rightarrow> [] | Some cs \<Rightarrow> cs);
          info = (case map_of changes change_key of
                    None \<Rightarrow> \<lparr>g_before = before_val, g_after = after_val, g_count = 0\<rparr>
                  | Some g \<Rightarrow> g)
      in AList.update tag_key
           (AList.update change_key (info\<lparr>g_count := g_count info + 1\<rparr>) changes) tag_changes)"

text \<open>The loop \<^verbatim>\<open>for tag_key in all_tag_keys\<close> over one pair of tag mappings.\<close>

definition scan_tag_keys ::
  "(json \<Rightarrow> string) \<Rightarrow> (string \<times> json) list \<Rightarrow> (string \<times> json) list \<Rightarrow> tag_table \<Rightarrow> tag_table" where
  "scan_tag_keys repr before_tags after_tags tag_changes =
     fold (\<lambda>tag_key tc.
             let before_val = (case map_of before_tags tag_key of Some v \<Rightarrow> v | None \<Rightarrow> JNull);
                 after_val = (case map_of after_tags tag_key of Some v \<Rightarrow> v | None \<Rightarrow> JNull)
             in if \<not> py_eq before_val after_val
                then record_change repr tag_key before_val after_val tc else tc)
          (all_keys before_tags after_tags) tag_changes"

text \<open>One round of \<^verbatim>\<open>for tag_field in ["tags", "tags_all"]\<close>: the table after the round, and
  whether the round ends in \<^verbatim>\<open>break\<close>.\<close>

definition scan_tag_field ::
  "(json \<Rightarrow> string) \<Rightarrow> json \<Rightarrow> json \<Rightarrow> string \<Rightarrow> tag_table \<Rightarrow> (tag_table \<times> bool) option" where
  "scan_tag_field repr before after tag_field tag_changes = do {
     before_tags \<leftarrow> py_get before tag_field (JDict []);
     after_tags \<leftarrow> py_get after tag_field (JDict []);
     (case (before_tags, after_tags) of
        (JDict bt, JDict at) \<Rightarrow>
          Some (scan_tag_keys repr bt at tag_changes, tag_field = ''tags'' \<and> truthy before_tags)
      | _ \<Rightarrow> Some (tag_changes, False))
   }"

text \<open>The body of \<^verbatim>\<open>for rc in tags_only_resources\<close>.\<close>

definition scan_resource :: "(json \<Rightarrow> string) \<Rightarrow> json \<Rightarrow> tag_table \<Rightarrow> tag_table option" where
  "scan_resource repr rc tag_changes = do {
     change \<leftarrow> py_get rc ''change'' (JDict []);
     before \<leftarrow> py_get change ''before'' (JDict []);
     after \<leftarrow> py_get change ''after'' (JDict []);
     (tc, stop) \<leftarrow> scan_tag_field repr before after ''tags'' tag_changes;
     if stop then Some tc
     else map_option fst (scan_tag_field repr before after ''tags_all'' tc)
   }"

fun scan_resources :: "(json \<Rightarrow> string) \<Rightarrow> json list \<Rightarrow> tag_table \<Rightarrow> tag_table option" where
  "scan_resources repr [] tag_changes = Some tag_changes"
| "scan_resources repr (rc # rcs) tag_changes =
     (case scan_resource repr rc tag_changes of
        None \<Rightarrow> None
      | Some tc \<Rightarrow> scan_resources repr rcs tc)"

text \<open>The first loop: the resources whose \<^verbatim>\<open>tags_only\<close> entry is true.\<close>

fun collect_tags_only :: "json list \<Rightarrow> json list option" where
  "collect_tags_only [] = Some []"
| "collect_tags_only (rc # rcs) =
     (case py_get rc ''tags_only'' (JBool False) of
        None \<Rightarrow> None
      | Some flag \<Rightarrow>
          (case collect_tags_only rcs of
             None \<Rightarrow> None
           | Some rest \<Rightarrow> Some (if truthy flag then rc # rest else rest)))"

text \<open>An entry of the result: \<^verbatim>\<open>{"before", "after", "count", "is_common"}\<close>, or
  \<^verbatim>\<open>{"changes": [...], "is_common": False}\<close>.\<close>

datatype tag_summary =
    Single json json nat bool
  | Multiple "grouping list"

fun is_common :: "tag_summary \<Rightarrow> bool" where
  "is_common (Single _ _ _ c) = c"
| "is_common (Multiple _) = False"

text \<open>The body of the flattening loop, for the groupings \<^verbatim>\<open>changes\<close> of one tag key.\<close>

definition flatten_entry :: "nat \<Rightarrow> (string \<times> grouping) list \<Rightarrow> tag_summary" where
  "flatten_entry total_resources changes =
     (case changes of
        [(_, change_info)] \<Rightarrow>
          (if g_count change_info = total_resources
           then Single (g_before change_info) (g_after change_info) total_resources True
           else Single (g_before change_info) (g_after change_info) (g_count change_info) False)
      | _ \<Rightarrow> Multiple (map snd changes))"

definition extract_all_tag_changes ::
  "(json \<Rightarrow> string) \<Rightarrow> json \<Rightarrow> (string \<times> tag_summary) list option" where
  "extract_all_tag_changes repr resource_changes = do {
     rcs \<leftarrow> py_iter resource_changes;
     tags_only_resources \<leftarrow> collect_tags_only rcs;
     if tags_only_resources = [] then Some []
     else do {
       tag_changes \<leftarrow> scan_resources repr tags_only_resources [];
       Some (map (\<lambda>(tag_key, changes).
                    (tag_key, flatten_entry (length tags_only_resources) changes))
                 tag_changes)
     }
   }"

section \<open>Output changes section of the report\<close>

text \<open>The lines that one round of the loop over \<^verbatim>\<open>output_changes.items()\<close> appends to
  the report.\<close>

definition render_output :: "string \<Rightarrow> json \<Rightarrow> string list option" where
  "render_output output_name output_change = do {
     actions \<leftarrow> py_get output_change ''actions'' (JList []);
     action_emoji \<leftarrow> get_action_emoji actions;
     sensitive \<leftarrow> py_get output_change ''sensitive'' JNull;
     before \<leftarrow> py_get output_change ''before'' JNull;
     after \<leftarrow> py_get output_change ''after'' JNull;
     Some ([''### '' @ action_emoji @ '' `'' @ output_name @ ''`'', ''''] @
           (if truthy sensitive then [''Value: `(sensitive)`'']
            else if before = JNull \<and> after \<noteq> JNull then
              [''Value: '' @ strip (format_value after 0)]
            else if \<not> py_eq before after then
              [''Before: '' @ strip (format_value before 0),
               ''After: '' @ strip (format_value after 0)]
            else []) @
           [''''])
   }"

text \<open>
  The test of the loop that collects \<^verbatim>\<open>resources_for_action\<close> for one \<^verbatim>\<open>action_type\<close> of the
  detail section (one of \<^verbatim>\<open>create\<close>, \<^verbatim>\<open>update\<close>, \<^verbatim>\<open>replace\<close>, \<^verbatim>\<open>delete\<close>). For each of
  these four the chain evaluates a membership test on \<^verbatim>\<open>actions\<close>, which raises or not
  whatever the string tested, so the tests are evaluated up front.
\<close>

definition selected :: "string \<Rightarrow> json \<Rightarrow> bool option" where
  "selected action_type rc = do {
     change \<leftarrow> py_get rc ''change'' (JDict []);
     actions \<leftarrow> py_get change ''actions'' (JList []);
     tags_only \<leftarrow> py_get rc ''tags_only'' (JBool False);
     has_create \<leftarrow> py_in ''create'' actions;
     has_delete \<leftarrow> py_in ''delete'' actions;
     has_update \<leftarrow> py_in ''update'' actions;
     Some (if action_type = ''replace'' \<and> has_create \<and> has_delete then True
           else if action_type = ''create'' \<and> has_create \<and> \<not> has_delete then True
           else if action_type = ''delete'' \<and> has_delete \<and> \<not> has_create then True
           else action_type = ''update'' \<and> has_update \<and> \<not> truthy tags_only)
   }"

definition resources_for_action :: "string \<Rightarrow> json list \<Rightarrow> json list option" where
  "resources_for_action action_type rcs = do {
     flags \<leftarrow> map_raise (selected action_type) rcs;
     Some (map fst (filter snd (zip rcs flags)))
   }"

text \<open>
  The lines that the output changes section adds to the report of
  \<^verbatim>\<open>convert_plan_to_markdown(plan_data)\<close>, following the function from its first line: the
  section is rendered only when everything before it has run without an exception and
  the function has not returned. Before the section the function renders the errors,
  returns when \<^verbatim>\<open>resource_changes\<close> is missing or empty (the section then adds nothing),
  counts the resource changes, renders the tag summary when some resource is a tag-only
  update, and renders the details of the resources selected for each of the four action
  types. What the errors section, the tag summary and the details of a non-empty
  selection render is not embedded: the three renderers are the parameters
  \<open>render_errors\<close>, \<open>render_tag_summary\<close> and \<open>render_details\<close>, each giving its lines or
  raising, and they are called exactly where the function enters these parts. In the
  section itself \<^verbatim>\<open>.items()\<close> exists on a dict only.
\<close>

definition render_output_changes ::
  "(json \<Rightarrow> string list option) \<Rightarrow> (json \<Rightarrow> nat \<Rightarrow> string list option) \<Rightarrow>
   (string \<Rightarrow> json list \<Rightarrow> string list option) \<Rightarrow> json \<Rightarrow> string list option" where
  "render_output_changes render_errors render_tag_summary render_details plan_data = do {
     errors \<leftarrow> py_get plan_data ''errors'' (JList []);
     error_lines \<leftarrow> (if truthy errors then render_errors errors else Some []);
     resource_changes \<leftarrow> py_get plan_data ''resource_changes'' (JList []);
     if \<not> truthy resource_changes then Some []
     else do {
       rcs \<leftarrow> py_iter resource_changes;
       action_counts \<leftarrow> count_actions rcs (\<lambda>b. 0);
       tag_lines \<leftarrow> (if action_counts UpdateTagsOnly > 0
                     then render_tag_summary resource_changes (action_counts UpdateTagsOnly)
                     else Some []);
       detail_lines \<leftarrow> map_raise (\<lambda>action_type. do {
                           resources \<leftarrow> resources_for_action action_type rcs;
                           if resources \<noteq> [] then render_details action_type resources
                           else Some []
                         }) [''create'', ''update'', ''replace'', ''delete''];
       output_changes \<leftarrow> py_get plan_data ''output_changes'' (JDict []);
       if truthy output_changes then
         (case output_changes of
            JDict kvs \<Rightarrow> do {
              blocks \<leftarrow> map_raise (\<lambda>(output_name, output_change).
                                     render_output output_name output_change) kvs;
              Some ([''## Output Changes'', ''''] @ concat blocks)
            }
          | _ \<Rightarrow> None)
       else Some []
     }
   }"

section \<open>Format detector and line-oriented parser\<close>

text \<open>
  Both functions read the input file line by line and hand each stripped line to
  \<^verbatim>\<open>json.loads\<close>, which belongs to Python's library, not to the converter. A line of the
  file is therefore given by what happens to it: it is blank after \<^verbatim>\<open>strip()\<close>, or
  \<^verbatim>\<open>json.loads\<close> raises \<^verbatim>\<open>JSONDecodeError\<close> on it, or \<^verbatim>\<open>json.loads\<close> returns an object.
  On the empty string \<^verbatim>\<open>json.loads\<close> raises \<^verbatim>\<open>JSONDecodeError\<close>.
\<close>

datatype line = Blank | Malformed | Record json

datatype json_format = Streaming | ShowFormat | Unknown

text \<open>\<^verbatim>\<open>detect_json_format\<close>: \<^verbatim>\<open>f.readline()\<close> returns the first line of the file, or the
  empty string at the end of an empty file. Only \<^verbatim>\<open>JSONDecodeError\<close> is caught.\<close>

definition detect_json_format :: "line list \<Rightarrow> json_format option" where
  "detect_json_format file_lines =
     (case file_lines of
        [] \<Rightarrow> Some Unknown
      | Blank # _ \<Rightarrow> Some Unknown
      | Malformed # _ \<Rightarrow> Some Unknown
      | Record obj # _ \<Rightarrow> do {
          has_level \<leftarrow> py_in ''@level'' obj;
          has_type \<leftarrow> py_in ''type'' obj;
          has_version \<leftarrow> py_in ''terraform_version'' obj;
          has_changes \<leftarrow> py_in ''resource_changes'' obj;
          Some (if has_level \<or> has_type then Streaming
                else if has_version \<or> has_changes then ShowFormat
                else Unknown)
        })"

text \<open>The parser that \<^verbatim>\<open>main\<close> calls for a detected format.\<close>

datatype parser = ParseShowJson | ParseJsonLines

definition main_parser :: "json_format \<Rightarrow> parser" where
  "main_parser json_format = (if json_format = ShowFormat then ParseShowJson else ParseJsonLines)"

text \<open>The state of \<^verbatim>\<open>parse_terraform_json_lines\<close>: the fields of \<^verbatim>\<open>plan_data\<close> that the loop
  writes, and the dict \<^verbatim>\<open>planned_changes\<close>. Its keys are the values of \<^verbatim>\<open>addr\<close>; two keys
  are the same key when they are equal by \<^verbatim>\<open>==\<close>, and a list or a dict is no key
  (\<^verbatim>\<open>TypeError: unhashable type\<close>). The set \<^verbatim>\<open>resource_changes_attrs\<close> is written but never
  read for the result; of its round only the exception it can raise is kept.\<close>

record plan_state =
  terraform_version :: json
  errors :: "json list"
  planned_changes :: "(json \<times> json) list"

definition hashable :: "json \<Rightarrow> bool" where
  "hashable v = (case v of JList _ \<Rightarrow> False | JDict _ \<Rightarrow> False | _ \<Rightarrow> True)"

text \<open>\<^verbatim>\<open>d[k] = v\<close> on a dict in insertion order: the value of an existing key is replaced
  where it stands, a new key goes to the end.\<close>

fun dict_store :: "(json \<times> 'v) list \<Rightarrow> json \<Rightarrow> 'v \<Rightarrow> (json \<times> 'v) list" where
  "dict_store [] k v = [(k, v)]"
| "dict_store ((k', v') # kvs) k v =
     (if py_eq k' k then (k', v) # kvs else (k', v') # dict_store kvs k v)"

text \<open>The \<^verbatim>\<open>resource_change\<close> dict built for a \<^verbatim>\<open>planned_change\<close> event.\<close>

definition resource_change ::
  "json \<Rightarrow> json \<Rightarrow> json \<Rightarrow> json \<Rightarrow> json \<Rightarrow> json \<Rightarrow> json" where
  "resource_change addr module rtype rname action reason =
     JDict [(''address'', addr),
            (''module'', module),
            (''type'', rtype),
            (''name'', rname),
            (''change'', JDict [(''actions'', (case action of JStr _ \<Rightarrow> JList [action] | _ \<Rightarrow> action)),
                               (''before'', JDict []),
                               (''after'', JDict []),
                               (''after_unknown'', JDict []),
                               (''before_sensitive'', JDict []),
                               (''after_sensitive'', JDict []),
                               (''action_reason'', reason)]),
            (''tags_only'', JBool False)]"

text \<open>The body of the \<^verbatim>\<open>try\<close> block for one decoded \<^verbatim>\<open>event\<close>.\<close>

definition step :: "plan_state \<Rightarrow> json \<Rightarrow> plan_state option" where
  "step st event = do {
     event_type \<leftarrow> py_get event ''type'' JNull;
     level \<leftarrow> py_get event ''@level'' JNull;
     let st1 = (if py_eq level (JStr ''error'') \<and> py_eq event_type (JStr ''diagnostic'')
                then st\<lparr>errors := errors st @ [event]\<rparr> else st);
     if py_eq event_type (JStr ''version'') then do {
       tf \<leftarrow> py_get event ''terraform'' JNull;
       Some (st1\<lparr>terraform_version := tf\<rparr>)
     }
     else if py_eq event_type (JStr ''resource_drift'') then do {
       change_data \<leftarrow> py_get event ''change'' (JDict []);
       resource \<leftarrow> py_get change_data ''resource'' (JDict []);
       addr \<leftarrow> py_get resource ''addr'' (JStr '''');
       if truthy addr \<and> \<not> hashable addr then None else Some st1
     }
     else if py_eq event_type (JStr ''planned_change'') then do {
       change_data \<leftarrow> py_get event ''change'' (JDict []);
       resource \<leftarrow> py_get change_data ''resource'' (JDict []);
       action \<leftarrow> py_get change_data ''action'' JNull;
       if py_eq action (JStr ''read'') then Some st1
       else do {
         addr \<leftarrow> py_get resource ''addr'' (JStr '''');
         module \<leftarrow> py_get resource ''module'' (JStr '''');
         rtype \<leftarrow> py_get resource ''resource_type'' (JStr '''');
         rname \<leftarrow> py_get resource ''resource_name'' (JStr '''');
         reason \<leftarrow> py_get change_data ''reason'' JNull;
         if hashable addr then
           Some (st1\<lparr>planned_changes :=
                   dict_store (planned_changes st1) addr
                     (resource_change addr module rtype rname action reason)\<rparr>)
         else None
       }
     }
     else Some st1
   }"

text \<open>The loop over the lines: blank lines and lines that do not decode are skipped.\<close>

fun parse_lines :: "plan_state \<Rightarrow> line list \<Rightarrow> plan_state option" where
  "parse_lines st [] = Some st"
| "parse_lines st (Blank # ls) = parse_lines st ls"
| "parse_lines st (Malformed # ls) = parse_lines st ls"
| "parse_lines st (Record event # ls) =
     (case step st event of None \<Rightarrow> None | Some st' \<Rightarrow> parse_lines st' ls)"

definition initial_state :: plan_state where
  "initial_state = \<lparr>terraform_version = JNull, errors = [], planned_changes = []\<rparr>"

text \<open>\<^verbatim>\<open>list(planned_changes.values())\<close> of the final state.\<close>

definition final_changes :: "plan_state \<Rightarrow> json list" where
  "final_changes st = map snd (planned_changes st)"

definition parse_terraform_json_lines :: "line list \<Rightarrow> json option" where
  "parse_terraform_json_lines file_lines =
     map_option
       (\<lambda>st. JDict [(''terraform_version'', terraform_version st),
                    (''resource_changes'', JList (final_changes st)),
                    (''output_changes'', JDict []),
                    (''errors'', JList (errors st))])
       (parse_lines initial_state file_lines)"

text \<open>The \<^verbatim>\<open>address\<close> and the \<^verbatim>\<open>actions\<close> of a change record of the final document.\<close>

definition address_of :: "json \<Rightarrow> json option" where
  "address_of rc = py_get rc ''address'' JNull"

definition actions_of :: "json \<Rightarrow> json option" where
  "actions_of rc = do { change \<leftarrow> py_get rc ''change'' (JDict []); py_get change ''actions'' (JList []) }"

section \<open>Notions used to state the properties\<close>

text \<open>The rule of the claim in terms of sets. An attribute key is marked unknown when the
  \<^verbatim>\<open>after_unknown\<close> mapping binds it to a true value; the changed keys are the keys of
  \<^verbatim>\<open>before\<close> or \<^verbatim>\<open>after\<close> that are not marked unknown and whose two values differ by
  \<^verbatim>\<open>!=\<close> (a missing key reads as \<^verbatim>\<open>None\<close>).\<close>

definition marked_unknown :: "json \<Rightarrow> string \<Rightarrow> bool" where
  "marked_unknown after_unknown key =
     (case after_unknown of
        JDict m \<Rightarrow> (case map_of m key of Some v \<Rightarrow> truthy v | None \<Rightarrow> False)
      | _ \<Rightarrow> False)"

definition attr :: "(string \<times> json) list \<Rightarrow> string \<Rightarrow> json" where
  "attr m key = (case map_of m key of Some v \<Rightarrow> v | None \<Rightarrow> JNull)"

definition changed_keys :: "(string \<times> json) list \<Rightarrow> (string \<times> json) list \<Rightarrow> json \<Rightarrow> string set" where
  "changed_keys b a after_unknown =
     {k \<in> fst ` set b \<union> fst ` set a.
        \<not> marked_unknown after_unknown k \<and> \<not> py_eq (attr b k) (attr a k)}"



text \<open>A \<^verbatim>\<open>planned_change\<close> record with action \<^verbatim>\<open>read\<close>.\<close>

definition is_read_planned_change :: "json \<Rightarrow> bool" where
  "is_read_planned_change event =
     (py_get event ''type'' JNull = Some (JStr ''planned_change'') \<and>
      Option.bind (py_get event ''change'' (JDict [])) (\<lambda>change_data. py_get change_data ''action'' JNull)
        = Some (JStr ''read''))"


text \<open>What a record of the input writes: a \<^verbatim>\<open>planned_change\<close> record whose action is not
  \<^verbatim>\<open>read\<close> writes, under its address, the change record built from it; no other record
  writes.\<close>

definition planned_write :: "json \<Rightarrow> (json \<times> json) option" where
  "planned_write event = do {
     event_type \<leftarrow> py_get event ''type'' JNull;
     if event_type = JStr ''planned_change'' then do {
       change_data \<leftarrow> py_get event ''change'' (JDict []);
       resource \<leftarrow> py_get change_data ''resource'' (JDict []);
       action \<leftarrow> py_get change_data ''action'' JNull;
       if action = JStr ''read'' then None
       else do {
         addr \<leftarrow> py_get resource ''addr'' (JStr '''');
         module \<leftarrow> py_get resource ''module'' (JStr '''');
         rtype \<leftarrow> py_get resource ''resource_type'' (JStr '''');
         rname \<leftarrow> py_get resource ''resource_name'' (JStr '''');
         reason \<leftarrow> py_get change_data ''reason'' JNull;
         Some (addr, resource_change addr module rtype rname action reason)
       }
     } else None
   }"




section \<open>Properties of the value formatter and the attribute differ\<close>

lemma strip_Nil [simp]: "strip [] = []"
  by (simp add: strip_def)

lemma py_eq_JStr_left [simp]: "py_eq (JStr s) e \<longleftrightarrow> e = JStr s"
  by (cases e) auto

lemma py_eq_JStr_right [simp]: "py_eq e (JStr s) \<longleftrightarrow> e = JStr s"
  by (cases e) auto

lemma py_eq_JNull_left [simp]: "py_eq JNull e \<longleftrightarrow> e = JNull"
  by (cases e) auto

lemma py_in_list [simp]: "py_in s (JList xs) = Some (JStr s \<in> set xs)"
  by (auto simp: py_in_def list_ex_iff)

lemma py_in_dict [simp]: "py_in s (JDict kvs) = Some (s \<in> fst ` set kvs)"
  by (simp add: py_in_def)

text \<open>
  C8 (as amended). For a list value the formatter returns the empty string when the list is
  empty; the indentation prefix followed by \<^verbatim>\<open>List with N items\<close> (N the decimal element
  count) when the list has more than five elements; and otherwise the indentation prefix
  followed by the elements, each formatted with no indentation and stripped of surrounding
  whitespace, joined with a comma and a space.
\<close>

theorem format_value_list:
  "format_value (JList vs) indent =
     (if vs = [] then []
      else if 5 < length vs then
        indent_prefix indent @ ''List with '' @ show_nat (length vs) @ '' items''
      else indent_prefix indent @ str_join '', '' (map (\<lambda>v. strip (format_value v 0)) vs))"
  by simp

text \<open>The claim as stated fails: a list of six elements is rendered with the word
  \<^verbatim>\<open>List\<close>, not \<^verbatim>\<open>Sequence\<close>.\<close>

theorem format_value_list_counterexample:
  "format_value (JList [JInt 1, JInt 2, JInt 3, JInt 4, JInt 5, JInt 6]) 0 = ''List with 6 items'' \<and>
   format_value (JList [JInt 1, JInt 2, JInt 3, JInt 4, JInt 5, JInt 6]) 0 \<noteq> ''Sequence with 6 items''"
  by code_simp

text \<open>
  C5. The attribute differ emits no line when the after value is absent (\<^verbatim>\<open>None\<close>, an empty
  list or an empty dict), and no line when before and after are both present and unequal
  but the after value formats to the empty string; in particular a change from \<^verbatim>\<open>"x"\<close>
  to the empty string emits no line.
\<close>

theorem format_change_no_line:
  "(absent after \<longrightarrow> format_change before after key indent = []) \<and>
   (\<not> absent before \<and> \<not> absent after \<and> \<not> py_eq before after \<and>
      strip (format_value after 0) = [] \<longrightarrow> format_change before after key indent = []) \<and>
   format_change (JStr ''x'') (JStr '''') key indent = []"
  by (simp add: format_change_def absent_def Let_def)

theorem format_change_no_line_witness:
  "absent JNull \<and> format_change (JStr ''x'') JNull ''k'' 1 = [] \<and>
   \<not> absent (JStr ''x'') \<and> \<not> absent (JStr '''') \<and> \<not> py_eq (JStr ''x'') (JStr '''') \<and>
   strip (format_value (JStr '''') 0) = [] \<and> format_change (JStr ''x'') (JStr '''') ''k'' 1 = []"
  using format_change_no_line [of JNull "JStr ''x''" "''k''" 1]
    format_change_no_line [of "JStr ''''" "JStr ''x''" "''k''" 1]
  by (simp add: absent_def)

section \<open>Properties of the labels and the classifier\<close>

lemma labels_distinct:
  "label_replace \<noteq> label_create" "label_replace \<noteq> label_delete" "label_replace \<noteq> label_update"
  "label_replace \<noteq> label_read" "label_replace \<noteq> label_noop"
  by (simp_all add: label_replace_def label_create_def label_delete_def label_update_def
      label_read_def label_noop_def)

text \<open>
  C10 (as amended). For every action list, if the list contains \<^verbatim>\<open>"create"\<close> the label is the
  CREATE label, also when \<^verbatim>\<open>"delete"\<close> is present. The REPLACE label is returned exactly when
  the list contains \<^verbatim>\<open>"replace"\<close> and none of \<^verbatim>\<open>"create"\<close>, \<^verbatim>\<open>"delete"\<close>, \<^verbatim>\<open>"update"\<close>: the
  create-and-delete alternative of the replace branch never selects it.
\<close>

theorem get_action_emoji_replace:
  "(JStr ''create'' \<in> set acts \<longrightarrow> get_action_emoji (JList acts) = Some label_create) \<and>
   (get_action_emoji (JList acts) = Some label_replace \<longleftrightarrow>
      JStr ''replace'' \<in> set acts \<and> JStr ''create'' \<notin> set acts \<and>
      JStr ''delete'' \<notin> set acts \<and> JStr ''update'' \<notin> set acts)"
  using labels_distinct by (simp add: get_action_emoji_def)

theorem get_action_emoji_replace_witness:
  "JStr ''create'' \<in> set [JStr ''create'', JStr ''delete''] \<and>
   get_action_emoji (JList [JStr ''create'', JStr ''delete'']) = Some label_create \<and>
   get_action_emoji (JList [JStr ''create'', JStr ''delete'']) \<noteq> Some label_replace"
  using get_action_emoji_replace [of "[JStr ''create'', JStr ''delete'']"] labels_distinct(1)
  by auto

text \<open>The claim as stated fails: the REPLACE label is returned for the list
  \<^verbatim>\<open>["replace"]\<close>.\<close>

theorem get_action_emoji_replace_counterexample:
  "get_action_emoji (JList [JStr ''replace'']) = Some label_replace"
  by (simp add: get_action_emoji_def)

text \<open>
  C2. For a resource change whose \<^verbatim>\<open>change.actions\<close> is the list \<open>acts\<close>, the counter
  that the summary loop increments is chosen by the first matching rule: create and delete
  both present give replace, whatever else is present; otherwise create gives create;
  otherwise delete gives delete; otherwise update gives update-tags-only when the
  \<^verbatim>\<open>tags_only\<close> entry is true and update when it is not; otherwise read gives read;
  otherwise no-op. Exactly that one counter of the seven goes up, by one: the counting loop
  over this one resource change returns the counters it started from with that counter
  one higher and the six others as they were, and over a longer list it goes on from
  these counters.
\<close>

theorem classify_precedence:
  assumes "actions_of rc = Some (JList acts)"
    and "py_get rc ''tags_only'' (JBool False) = Some tags_only"
  shows "classify rc =
           Some (if JStr ''create'' \<in> set acts \<and> JStr ''delete'' \<in> set acts then Replace
                 else if JStr ''create'' \<in> set acts then Create
                 else if JStr ''delete'' \<in> set acts then Delete
                 else if JStr ''update'' \<in> set acts \<and> truthy tags_only then UpdateTagsOnly
                 else if JStr ''update'' \<in> set acts then Update
                 else if JStr ''read'' \<in> set acts then Read
                 else NoOp) \<and>
         (\<exists>b. classify rc = Some b \<and>
              count_actions [rc] action_counts = Some (action_counts(b := action_counts b + 1)) \<and>
              count_actions (rc # rcs) action_counts =
                count_actions rcs (action_counts(b := action_counts b + 1)))"
  using assms
  by (auto simp: classify_def actions_of_def split: Option.bind_splits)

theorem classify_precedence_witness:
  "actions_of (JDict [(''change'', JDict [(''actions'',
       JList [JStr ''delete'', JStr ''create'', JStr ''update''])])])
     = Some (JList [JStr ''delete'', JStr ''create'', JStr ''update'']) \<and>
   py_get (JDict [(''change'', JDict [(''actions'',
       JList [JStr ''delete'', JStr ''create'', JStr ''update''])])]) ''tags_only'' (JBool False)
     = Some (JBool False) \<and>
   classify (JDict [(''change'', JDict [(''actions'',
       JList [JStr ''delete'', JStr ''create'', JStr ''update''])])]) = Some Replace \<and>
   count_actions [JDict [(''change'', JDict [(''actions'',
       JList [JStr ''delete'', JStr ''create'', JStr ''update''])])]] (\<lambda>b. 0)
     = Some ((\<lambda>b. 0)(Replace := 1))"
proof -
  let ?rc = "JDict [(''change'', JDict [(''actions'',
       JList [JStr ''delete'', JStr ''create'', JStr ''update''])])]"
  have a: "actions_of ?rc = Some (JList [JStr ''delete'', JStr ''create'', JStr ''update''])"
    by (simp add: actions_of_def py_get_def)
  have t: "py_get ?rc ''tags_only'' (JBool False) = Some (JBool False)"
    by (simp add: py_get_def)
  from classify_precedence [OF a t, where rcs = "[]" and action_counts = "\<lambda>b. 0"] a t
  show ?thesis by auto
qed

text \<open>Over the whole loop every resource change adds one to the sum of the seven counters.\<close>

lemma count_actions_total:
  "count_actions rcs action_counts = Some counts \<Longrightarrow>
   counts Create + counts Delete + counts Update + counts UpdateTagsOnly + counts Replace +
     counts Read + counts NoOp =
   action_counts Create + action_counts Delete + action_counts Update +
     action_counts UpdateTagsOnly + action_counts Replace + action_counts Read +
     action_counts NoOp + length rcs"
proof (induction rcs arbitrary: action_counts)
  case Nil
  then show ?case by simp
next
  case (Cons rc rcs)
  from Cons.prems obtain b where b: "classify rc = Some b"
    and r: "count_actions rcs (action_counts(b := action_counts b + 1)) = Some counts"
    by (auto split: option.splits)
  from Cons.IH [OF r] show ?case
    by (cases b) simp_all
qed

section \<open>Properties of the output changes section\<close>




text \<open>With no errors and \<^verbatim>\<open>resource_changes\<close> missing or empty the function returns before
  the section, which is then not rendered at all.\<close>

lemma render_output_changes_early_return:
  assumes "py_get plan_data ''errors'' (JList []) = Some error_events"
    and "\<not> truthy error_events"
    and "py_get plan_data ''resource_changes'' (JList []) = Some resource_changes"
    and "\<not> truthy resource_changes"
  shows "render_output_changes render_errors render_tag_summary render_details plan_data = Some []"
  using assms by (simp add: render_output_changes_def)

section \<open>Properties of the full-document parser\<close>

lemma map_raise_total:
  "(\<And>x. x \<in> set xs \<Longrightarrow> f x = Some (g x)) \<Longrightarrow> map_raise f xs = Some (map g xs)"
  by (induction xs) simp_all

lemma filter_zip_flags: "map fst (filter snd (zip ks (map P ks))) = filter P ks"
  by (induction ks) simp_all

lemma key_changed_dict:
  assumes "is_dict au \<or> \<not> truthy au"
  shows "key_changed (JDict b) (JDict a) au k =
           Some (\<not> marked_unknown au k \<and> \<not> py_eq (attr b k) (attr a k))"
  using assms
  by (cases au)
     (auto simp: key_changed_def marked_unknown_def attr_def py_get_def is_dict_def
           split: option.splits)

lemma changed_attrs_dict:
  assumes "is_dict au \<or> \<not> truthy au"
  shows "changed_attrs (JDict b) (JDict a) au ks =
           Some (filter (\<lambda>k. \<not> marked_unknown au k \<and> \<not> py_eq (attr b k) (attr a k)) ks)"
  unfolding changed_attrs_def
  by (simp add: map_raise_total [where g = "\<lambda>k. \<not> marked_unknown au k \<and> \<not> py_eq (attr b k) (attr a k)"]
        key_changed_dict [OF assms] filter_zip_flags)

lemma set_all_keys [simp]: "set (all_keys b a) = fst ` set b \<union> fst ` set a"
  by (simp add: all_keys_def)

lemma tags_only_dicts:
  assumes "is_dict au \<or> \<not> truthy au"
  shows "map_option (\<lambda>changed. changed \<noteq> [] \<and> list_all (\<lambda>k. k = ''tags'' \<or> k = ''tags_all'') changed)
           (changed_attrs (JDict b) (JDict a) au (all_keys b a)) =
         Some (changed_keys b a au \<noteq> {} \<and> changed_keys b a au \<subseteq> {''tags'', ''tags_all''})"
proof -
  let ?P = "\<lambda>k. \<not> marked_unknown au k \<and> \<not> py_eq (attr b k) (attr a k)"
  have s: "set (filter ?P (all_keys b a)) = changed_keys b a au"
    by (auto simp: changed_keys_def)
  have "(filter ?P (all_keys b a) \<noteq> []) = (changed_keys b a au \<noteq> {})"
    using s by (metis set_empty)
  moreover have "list_all (\<lambda>k. k = ''tags'' \<or> k = ''tags_all'') (filter ?P (all_keys b a)) =
      (changed_keys b a au \<subseteq> {''tags'', ''tags_all''})"
    unfolding list_all_iff s by auto
  ultimately show ?thesis
    by (simp add: changed_attrs_dict [OF assms])
qed

text \<open>
  C1 (as amended). For a resource change of the full-document format whose action list is
  \<open>acts\<close>, the \<^verbatim>\<open>tags_only\<close> flag that the parser stores is true if and only if the list
  contains \<^verbatim>\<open>update\<close> and contains neither \<^verbatim>\<open>create\<close> nor \<^verbatim>\<open>delete\<close>, \<^verbatim>\<open>before\<close> and \<^verbatim>\<open>after\<close>
  are both mappings, and the set of attribute keys whose before and after values differ
  (keys marked unknown at apply time left out) is a non-empty subset of \<^verbatim>\<open>tags\<close>,
  \<^verbatim>\<open>tags_all\<close>. Other actions next to \<^verbatim>\<open>update\<close>, such as \<^verbatim>\<open>read\<close>, do not clear the flag.
\<close>

theorem tags_only_iff:
  assumes "py_get rc ''change'' (JDict []) = Some change"
    and "py_get change ''actions'' (JList []) = Some (JList acts)"
    and "py_get change ''before'' (JDict []) = Some before"
    and "py_get change ''after'' (JDict []) = Some after"
    and "py_get change ''after_unknown'' (JDict []) = Some au"
    and "is_dict au \<or> \<not> truthy au"
  shows "\<exists>rc'. mark_tags_only rc = Some rc' \<and>
           py_get rc' ''tags_only'' JNull =
             Some (JBool (JStr ''update'' \<in> set acts \<and> JStr ''create'' \<notin> set acts \<and>
                          JStr ''delete'' \<notin> set acts \<and>
                          (\<exists>b a. before = JDict b \<and> after = JDict a \<and>
                             changed_keys b a au \<noteq> {} \<and>
                             changed_keys b a au \<subseteq> {''tags'', ''tags_all''})))"
proof -
  let ?spec = "JStr ''update'' \<in> set acts \<and> JStr ''create'' \<notin> set acts \<and>
               JStr ''delete'' \<notin> set acts \<and>
               (\<exists>b a. before = JDict b \<and> after = JDict a \<and>
                  changed_keys b a au \<noteq> {} \<and>
                  changed_keys b a au \<subseteq> {''tags'', ''tags_all''})"
  have flag: "tags_only_flag rc = Some ?spec"
  proof (cases "\<exists>b a. before = JDict b \<and> after = JDict a")
    case True
    then obtain b a where ba: "before = JDict b" "after = JDict a" by blast
    from tags_only_dicts [OF assms(6), of b a]
    obtain changed where c: "changed_attrs (JDict b) (JDict a) au (all_keys b a) = Some changed"
      and v: "(changed \<noteq> [] \<and> list_all (\<lambda>k. k = ''tags'' \<or> k = ''tags_all'') changed) =
              (changed_keys b a au \<noteq> {} \<and> changed_keys b a au \<subseteq> {''tags'', ''tags_all''})"
      by (auto simp: map_option_case split: option.splits)
    show ?thesis
      using assms(1-5) ba c v by (auto simp: tags_only_flag_def)
  next
    case False
    then show ?thesis
      using assms(1-5)
      by (cases before; cases after) (simp_all add: tags_only_flag_def)
  qed
  from assms(1) obtain kvs where rc: "rc = JDict kvs"
    by (cases rc) (simp_all add: py_get_def)
  show ?thesis
    using flag rc by (simp add: mark_tags_only_def py_get_def update_conv')
qed

theorem tags_only_iff_witness:
  "\<exists>rc'. mark_tags_only
           (JDict [(''address'', JStr ''aws_s3_bucket.b''),
                   (''change'', JDict [(''actions'', JList [JStr ''update'']),
                      (''before'', JDict [(''acl'', JStr ''private''),
                                          (''tags'', JDict [(''Name'', JStr ''a'')])]),
                      (''after'', JDict [(''acl'', JStr ''private''),
                                         (''tags'', JDict [(''Name'', JStr ''b'')])])])]) = Some rc' \<and>
         py_get rc' ''tags_only'' JNull = Some (JBool True)"
proof -
  let ?b = "[(''acl'', JStr ''private''), (''tags'', JDict [(''Name'', JStr ''a'')])]"
  let ?a = "[(''acl'', JStr ''private''), (''tags'', JDict [(''Name'', JStr ''b'')])]"
  let ?change = "JDict [(''actions'', JList [JStr ''update'']),
                        (''before'', JDict ?b), (''after'', JDict ?a)]"
  let ?rc = "JDict [(''address'', JStr ''aws_s3_bucket.b''), (''change'', ?change)]"
  have h1: "py_get ?rc ''change'' (JDict []) = Some ?change"
    and h2: "py_get ?change ''actions'' (JList []) = Some (JList [JStr ''update''])"
    and h3: "py_get ?change ''before'' (JDict []) = Some (JDict ?b)"
    and h4: "py_get ?change ''after'' (JDict []) = Some (JDict ?a)"
    and h5: "py_get ?change ''after_unknown'' (JDict []) = Some (JDict [])"
    and h6: "is_dict (JDict []) \<or> \<not> truthy (JDict [])"
    by (simp_all add: py_get_def is_dict_def)
  have ck: "changed_keys ?b ?a (JDict []) = {''tags''}"
    by (auto simp: changed_keys_def attr_def marked_unknown_def)
  from tags_only_iff [OF h1 h2 h3 h4 h5 h6] ck show ?thesis
    by simp
qed

text \<open>The claim as stated fails: with the action list \<^verbatim>\<open>["update", "read"]\<close>, which is
  not exactly \<^verbatim>\<open>{update}\<close>, a change of the tags alone is still flagged.\<close>

theorem tags_only_iff_counterexample:
  "tags_only_flag
     (JDict [(''change'', JDict [(''actions'', JList [JStr ''update'', JStr ''read'']),
                (''before'', JDict [(''tags'', JDict [(''Name'', JStr ''a'')])]),
                (''after'', JDict [(''tags'', JDict [(''Name'', JStr ''b'')])])])]) = Some True \<and>
   set [JStr ''update'', JStr ''read''] \<noteq> {JStr ''update''}"
  by (simp add: tags_only_flag_def py_get_def changed_attrs_def key_changed_def all_keys_def)

text \<open>The parser stores the flag of every resource change in the document it returns.\<close>

lemma parse_terraform_show_json_marks:
  assumes "map_of kvs ''resource_changes'' = Some (JList rcs)"
    and "map_raise mark_tags_only rcs = Some marked"
  shows "parse_terraform_show_json (JDict kvs) =
           Some (JDict (AList.update ''resource_changes'' (JList marked) kvs))"
  using assms
  by (cases rcs) (auto simp: parse_terraform_show_json_def py_get_def py_iter_def update_triv
      split: option.splits)

section \<open>Properties of the tag aggregator\<close>

text \<open>The flattening step on the grouped table: one grouping whose count is the number of
  tags-only records is common; one grouping with another count is not common and keeps its
  count; any other number of groupings keeps the list.\<close>

lemma flatten_entry_single:
  "flatten_entry total_resources [(change_key, g)] =
     (if g_count g = total_resources
      then Single (g_before g) (g_after g) total_resources True
      else Single (g_before g) (g_after g) (g_count g) False)"
  by (simp add: flatten_entry_def)

lemma flatten_entry_multiple:
  "length changes \<noteq> 1 \<Longrightarrow> flatten_entry total_resources changes = Multiple (map snd changes)"
  by (cases changes rule: list.exhaust; cases "tl changes")
     (auto simp: flatten_entry_def split: list.splits prod.splits)

lemma is_common_flatten_entry:
  "is_common (flatten_entry total_resources changes) \<longleftrightarrow>
     (\<exists>change_key g. changes = [(change_key, g)] \<and> g_count g = total_resources)"
  by (cases changes rule: list.exhaust; cases "tl changes")
     (auto simp: flatten_entry_def split: list.splits prod.splits)

text \<open>
  C3. The claim: for every tags-only record exactly one of \<^verbatim>\<open>tags\<close> and \<^verbatim>\<open>tags_all\<close>
  contributes to the counts, so a changed tag key present in both is counted once per
  record. The aggregator leaves the loop over the two fields only when the \<^verbatim>\<open>tags\<close>
  mapping of \<^verbatim>\<open>before\<close> is non-empty. For a resource that gets its first tag (\<^verbatim>\<open>tags\<close> and
  \<^verbatim>\<open>tags_all\<close> both go from empty to \<^verbatim>\<open>{"Name": "a"}\<close>), which the full-document parser
  flags as tags-only, both fields are counted: the key has count 2 over one record and is
  reported as not common.
\<close>

theorem extract_all_tag_changes_counts_twice:
  "mark_tags_only
     (JDict [(''change'', JDict [(''actions'', JList [JStr ''update'']),
                (''before'', JDict [(''tags'', JDict []), (''tags_all'', JDict [])]),
                (''after'', JDict [(''tags'', JDict [(''Name'', JStr ''a'')]),
                                   (''tags_all'', JDict [(''Name'', JStr ''a'')])])])]) =
     Some (JDict [(''change'', JDict [(''actions'', JList [JStr ''update'']),
                (''before'', JDict [(''tags'', JDict []), (''tags_all'', JDict [])]),
                (''after'', JDict [(''tags'', JDict [(''Name'', JStr ''a'')]),
                                   (''tags_all'', JDict [(''Name'', JStr ''a'')])])]),
                  (''tags_only'', JBool True)]) \<and>
   extract_all_tag_changes repr
     (JList [JDict [(''change'', JDict [(''actions'', JList [JStr ''update'']),
                (''before'', JDict [(''tags'', JDict []), (''tags_all'', JDict [])]),
                (''after'', JDict [(''tags'', JDict [(''Name'', JStr ''a'')]),
                                   (''tags_all'', JDict [(''Name'', JStr ''a'')])])]),
                  (''tags_only'', JBool True)]]) =
     Some [(''Name'', Single JNull (JStr ''a'') 2 False)]"
  by (simp add: mark_tags_only_def tags_only_flag_def py_get_def changed_attrs_def
      key_changed_def all_keys_def extract_all_tag_changes_def py_iter_def scan_resource_def
      scan_tag_field_def scan_tag_keys_def record_change_def py_str_def flatten_entry_def)

text \<open>
  C4. The claim: a tag key with more than one distinct (before, after) pair is marked not
  common and keeps the list of its pairs. The aggregator groups the pairs of a key by the
  string \<^verbatim>\<open>f"{before_val}{arrow}{after_val}"\<close>, which its comment calls a unique key for the
  pair; the string is the same for different pairs. Of two tags-only records, one adds the
  tag \<^verbatim>\<open>k\<close> with value \<^verbatim>\<open>"x"\<close> (before is \<^verbatim>\<open>None\<close>), the other changes \<^verbatim>\<open>k\<close> from the string
  \<^verbatim>\<open>"None"\<close> to \<^verbatim>\<open>"x"\<close>: two distinct pairs, one of each. The result has a single grouping
  with count 2, marked common to all resources.
\<close>

theorem extract_all_tag_changes_merges_pairs:
  "extract_all_tag_changes repr
     (JList [JDict [(''change'', JDict [(''actions'', JList [JStr ''update'']),
                (''before'', JDict [(''tags'', JDict [(''env'', JStr ''dev'')])]),
                (''after'', JDict [(''tags'', JDict [(''env'', JStr ''dev''), (''k'', JStr ''x'')])])]),
                  (''tags_only'', JBool True)],
             JDict [(''change'', JDict [(''actions'', JList [JStr ''update'']),
                (''before'', JDict [(''tags'', JDict [(''env'', JStr ''dev''), (''k'', JStr ''None'')])]),
                (''after'', JDict [(''tags'', JDict [(''env'', JStr ''dev''), (''k'', JStr ''x'')])])]),
                  (''tags_only'', JBool True)]]) =
     Some [(''k'', Single JNull (JStr ''x'') 2 True)] \<and>
   (JNull, JStr ''x'') \<noteq> (JStr ''None'', JStr ''x'')"
  by (simp add: py_get_def all_keys_def extract_all_tag_changes_def py_iter_def scan_resource_def
      scan_tag_field_def scan_tag_keys_def record_change_def py_str_def flatten_entry_def)

section \<open>Properties of the format detector\<close>

text \<open>
  C6 (as amended). The format detector reads the first line of the input, blank or not.
  When the line is blank or does not parse (also when the file is empty) the format is
  unknown. When it parses to a mapping, the format is line-oriented if the mapping has a
  \<^verbatim>\<open>@level\<close> or a \<^verbatim>\<open>type\<close> field, full-document if it instead has a \<^verbatim>\<open>terraform_version\<close> or
  a \<^verbatim>\<open>resource_changes\<close> field, and unknown otherwise. The caller treats unknown as
  line-oriented.
\<close>

theorem detect_json_format_first_line:
  "detect_json_format [] = Some Unknown \<and>
   detect_json_format (Blank # rest) = Some Unknown \<and>
   detect_json_format (Malformed # rest) = Some Unknown \<and>
   detect_json_format (Record (JDict kvs) # rest) =
     Some (if ''@level'' \<in> fst ` set kvs \<or> ''type'' \<in> fst ` set kvs then Streaming
           else if ''terraform_version'' \<in> fst ` set kvs \<or> ''resource_changes'' \<in> fst ` set kvs
           then ShowFormat
           else Unknown) \<and>
   main_parser Unknown = main_parser Streaming \<and>
   main_parser Streaming = ParseJsonLines \<and>
   main_parser ShowFormat = ParseShowJson"
  by (simp add: detect_json_format_def main_parser_def)

text \<open>The claim as stated fails: for a file whose first line is blank and whose second
  line is a full document, the first non-blank line is a full document, and the detector
  answers unknown.\<close>

theorem detect_json_format_counterexample:
  "detect_json_format
     [Blank, Record (JDict [(''terraform_version'', JStr ''1.5.0''),
                            (''resource_changes'', JList [])])] = Some Unknown \<and>
   detect_json_format
     [Record (JDict [(''terraform_version'', JStr ''1.5.0''),
                     (''resource_changes'', JList [])])] = Some ShowFormat"
  by (simp add: detect_json_format_def)

section \<open>Properties of the line-oriented parser\<close>







lemma address_of_resource_change [simp]:
  "address_of (resource_change addr module rtype rname action reason) = Some addr"
  by (simp add: address_of_def resource_change_def py_get_def)























lemma planned_write_read:
  "is_read_planned_change event \<Longrightarrow> planned_write event = None"
  by (auto simp: is_read_planned_change_def planned_write_def split: Option.bind_splits)


text \<open>The document that the parser returns lists the values of \<^verbatim>\<open>planned_changes\<close>.\<close>

lemma parse_terraform_json_lines_changes:
  assumes "parse_terraform_json_lines file_lines = Some plan_data"
  shows "\<exists>st. parse_lines initial_state file_lines = Some st \<and>
           py_get plan_data ''resource_changes'' (JList []) = Some (JList (final_changes st))"
  using assms by (auto simp: parse_terraform_json_lines_def py_get_def)



end
